theory Spec2Isabelle
  imports Complex_Main
begin

section \<open>The observability service of \<^verbatim>\<open>src/app.ts\<close>\<close>

text \<open>
  The service is one Express application: an instrumentation middleware that replaces
  \<^verbatim>\<open>res.send\<close>, and three route handlers. Its collaborators (Express, prom-client,
  winston with the Loki transport) are libraries outside the repository; each is given
  here by the part of its behaviour the application relies on, and the original
  \<^verbatim>\<open>res.send\<close>, which the middleware captures in a variable, is a parameter of the
  patched one. Status codes are \<open>nat\<close>.
\<close>

subsection \<open>JavaScript numbers\<close>

text \<open>
  A JavaScript number is an IEEE double. A finite one is modelled by the real number it
  denotes; the results of the arithmetic the application does itself (two products and
  a \<^verbatim>\<open>Math.floor\<close>) are \<open>jsnum\<close>s. An operation computes the exact result and rounds
  it to the nearest double, ties to the even significand (\<open>to_double\<close>): 53 significant
  bits, the unit in the last place of a binade being \<open>2 powr (e - 52)\<close>, the subnormals
  sharing the unit of the exponent \<open>-1022\<close>, and a result that rounds to \<open>2 powr 1024\<close>
  or beyond being an infinity. The sign of zero is not modelled.

  \<open>exponent\<close> is written with the logarithm; lemma \<open>to_double_binade\<close> below computes
  \<open>to_double\<close> from the binade of its argument.
\<close>

datatype jsnum = Num real | Infinity | NegInfinity

definition round_even :: "real \<Rightarrow> int" where
  "round_even y =
     (let n = \<lfloor>y\<rfloor>; d = y - of_int n
      in if d < 1/2 then n else if 1/2 < d then n + 1 else if even n then n else n + 1)"

definition exponent :: "real \<Rightarrow> int" where
  "exponent x = max \<lfloor>log 2 \<bar>x\<bar>\<rfloor> (- 1022)"

definition ulp :: "real \<Rightarrow> real" where
  "ulp x = 2 powr (of_int (exponent x) - 52)"

definition to_double :: "real \<Rightarrow> jsnum" where
  "to_double x =
     (if x = 0 then Num 0
      else let y = ulp x * of_int (round_even (x / ulp x))
           in if 2 powr 1024 \<le> \<bar>y\<bar> then (if 0 < x then Infinity else NegInfinity)
              else Num y)"


text \<open>The product \<^verbatim>\<open>x * y\<close> of two finite numbers, and \<^verbatim>\<open>Math.floor\<close>.\<close>

definition js_times :: "real \<Rightarrow> real \<Rightarrow> jsnum" where
  "js_times x y = to_double (x * y)"

fun js_floor :: "jsnum \<Rightarrow> jsnum" where
  "js_floor (Num y) = Num (of_int \<lfloor>y\<rfloor>)"
| "js_floor Infinity = Infinity"
| "js_floor NegInfinity = NegInfinity"

subsection \<open>Metric declarations and the registry\<close>

datatype metric =
    Histogram (metric_name: string) (metric_help: string)
      (metric_labelNames: "string list") (metric_buckets: "real list")
  | Counter (metric_name: string) (metric_help: string)
      (metric_labelNames: "string list")

definition httpRequestDurationMicroseconds :: metric where
  "httpRequestDurationMicroseconds =
     Histogram ''http_request_duration_seconds''
       ''Duration of HTTP requests in seconds''
       [''method'', ''route'', ''status_code'']
       [0.1, 0.3, 0.5, 0.7, 1, 3, 5, 7, 10]"

definition httpRequestCounter :: metric where
  "httpRequestCounter =
     Counter ''http_requests_total''
       ''Total number of HTTP requests''
       [''method'', ''route'', ''status_code'']"

text \<open>
  \<^verbatim>\<open>collectDefaultMetrics({ register })\<close> fills the registry with the process metrics
  of prom-client, whatever they are (\<open>defaults\<close>); the two \<^verbatim>\<open>registerMetric\<close> calls
  add the application's own metrics after them.
\<close>

definition registerMetric :: "metric \<Rightarrow> metric list \<Rightarrow> metric list" where
  "registerMetric m reg = reg @ [m]"

definition register :: "metric list \<Rightarrow> metric list" where
  "register defaults =
     registerMetric httpRequestCounter
       (registerMetric httpRequestDurationMicroseconds defaults)"

subsection \<open>Requests, responses, samples and log records\<close>

datatype json = JNum jsnum | JStr string | JObj "(string \<times> json) list"

text \<open>
  A response body: \<open>Json j\<close> stands for the text \<^verbatim>\<open>JSON.stringify(j)\<close> that
  \<^verbatim>\<open>res.json\<close> hands to \<^verbatim>\<open>send\<close>, \<open>Text s\<close> for a plain string.
\<close>

datatype body = Json json | Text string

text \<open>
  Of a request the application reads the method and the path. Express reads its cache
  validators as well: \<open>validators_match req b\<close> says that the request is conditional
  (\<^verbatim>\<open>If-None-Match\<close>, \<^verbatim>\<open>If-Modified-Since\<close>, no \<^verbatim>\<open>Cache-Control: no-cache\<close>) and
  that its validators match the entity \<^verbatim>\<open>send\<close> computes for the body \<open>b\<close>. It
  is constantly false for a request without validators, and constantly true for one
  with \<^verbatim>\<open>If-None-Match: *\<close>.
\<close>

record request =
  req_method :: string
  req_path :: string
  validators_match :: "body \<Rightarrow> bool"

record response =
  statusCode :: nat
  headers :: "(string \<times> string) list"
  sent :: "body option"

definition new_response :: response where
  "new_response = \<lparr>statusCode = 200, headers = [], sent = None\<rparr>"

datatype error = ERR_HTTP_HEADERS_SENT

record labels =
  label_method :: string
  route :: string
  status_code :: nat

record log_record =
  level :: string
  message :: string
  service :: string
  log_method :: string
  log_path :: string
  log_statusCode :: nat
  responseTimeMs :: jsnum

text \<open>
  What the middleware does to the registry and the logger, in the order it does it:
  an observation of the duration histogram, a call of \<^verbatim>\<open>logger.info\<close>, an increment
  of the request counter.
\<close>

datatype effect =
    Observe labels real
  | Log log_record
  | Inc labels

record world =
  clock :: real
  effects :: "effect list"

fun observations :: "effect list \<Rightarrow> (labels \<times> real) list" where
  "observations [] = []"
| "observations (Observe l v # es) = (l, v) # observations es"
| "observations (_ # es) = observations es"

fun increments :: "effect list \<Rightarrow> labels list" where
  "increments [] = []"
| "increments (Inc l # es) = l # increments es"
| "increments (_ # es) = increments es"

fun log_records :: "effect list \<Rightarrow> log_record list" where
  "log_records [] = []"
| "log_records (Log r # es) = r # log_records es"
| "log_records (_ # es) = log_records es"

subsection \<open>prom-client: timer and counter\<close>

text \<open>
  \<^verbatim>\<open>startTimer()\<close> reads the clock and returns the function \<^verbatim>\<open>end\<close>; calling
  \<^verbatim>\<open>end(labels)\<close> reads the clock again, observes the difference in seconds under
  the labels and returns it. The difference is the library's measurement and is taken
  as it is.
\<close>

definition startTimer :: "world \<Rightarrow> real" where
  "startTimer w = clock w"

definition end_timer :: "real \<Rightarrow> labels \<Rightarrow> world \<Rightarrow> real \<times> world" where
  "end_timer start l w =
     (let seconds = clock w - start
      in (seconds, w\<lparr>effects := effects w @ [Observe l seconds]\<rparr>))"

definition inc :: "labels \<Rightarrow> world \<Rightarrow> world" where
  "inc l w = w\<lparr>effects := effects w @ [Inc l]\<rparr>"

subsection \<open>winston: the logger\<close>

text \<open>
  \<^verbatim>\<open>logger.info(message, meta)\<close> builds one record (level, message, the default
  meta \<^verbatim>\<open>service\<close>, the meta of the call) and hands it to the logger. What the
  transports (Console, Loki) do with the record afterwards, the timestamp their format
  adds, and the \<^verbatim>\<open>onConnectionError\<close> callback of the Loki transport belong to the
  libraries and are not part of the model.
\<close>

definition logger_info ::
  "string \<Rightarrow> string \<Rightarrow> string \<Rightarrow> nat \<Rightarrow> jsnum \<Rightarrow> world \<Rightarrow> world" where
  "logger_info msg m p sc ms w =
     w\<lparr>effects := effects w @
         [Log \<lparr>level = ''info'', message = msg, service = ''api-service'',
               log_method = m, log_path = p, log_statusCode = sc,
               responseTimeMs = ms\<rparr>]\<rparr>"

subsection \<open>Express: finalising a response\<close>

text \<open>
  \<^verbatim>\<open>res.set\<close> stores a header and throws once the response has been sent. To a
  \<^verbatim>\<open>Content-Type\<close> without a charset parameter (the regular expression
  \<^verbatim>\<open>/;\s*charset\s*=/\<close>) it adds \<^verbatim>\<open>; charset=utf-8\<close> when the type, up to the first
  semicolon, begins with \<^verbatim>\<open>text/\<close>, \<^verbatim>\<open>application/json\<close> or
  \<^verbatim>\<open>application/javascript\<close>. Field names are compared as the application
  spells them, and white space is the ASCII white space.
\<close>

definition res_get :: "string \<Rightarrow> response \<Rightarrow> string option" where
  "res_get field r = map_of (headers r) field"

definition is_space :: "char \<Rightarrow> bool" where
  "is_space c = (c = CHR '' '' \<or> c = CHR 0x09 \<or> c = CHR 0x0A \<or> c = CHR 0x0B \<or>
                 c = CHR 0x0C \<or> c = CHR 0x0D)"

definition starts_with :: "string \<Rightarrow> string \<Rightarrow> bool" where
  "starts_with p s = (take (length p) s = p)"

definition charset_here :: "string \<Rightarrow> bool" where
  "charset_here s =
     (let s1 = dropWhile is_space s
      in starts_with ''charset'' s1 \<and>
         starts_with ''='' (dropWhile is_space (drop (length ''charset'') s1)))"

fun charsetRegExp_test :: "string \<Rightarrow> bool" where
  "charsetRegExp_test [] = False"
| "charsetRegExp_test (c # cs) =
     (if c = CHR '';'' \<and> charset_here cs then True else charsetRegExp_test cs)"

text \<open>The charset of a type, in the lower case in which \<^verbatim>\<open>res.set\<close> appends it.\<close>

definition charsets_lookup :: "string \<Rightarrow> string option" where
  "charsets_lookup mimeType =
     (if starts_with ''text/'' mimeType \<or> starts_with ''application/javascript'' mimeType \<or>
         starts_with ''application/json'' mimeType
      then Some ''utf-8'' else None)"

definition res_set :: "string \<Rightarrow> string \<Rightarrow> response \<Rightarrow> error + response" where
  "res_set field val r =
     (let value =
        (if field = ''Content-Type'' \<and> \<not> charsetRegExp_test val
         then (case charsets_lookup (takeWhile (\<lambda>c. c \<noteq> CHR '';'') val) of
                 Some charset \<Rightarrow> val @ ''; charset='' @ charset
               | None \<Rightarrow> val)
         else val)
      in if sent r \<noteq> None then Inl ERR_HTTP_HEADERS_SENT
         else Inr (r\<lparr>headers := (field, value) # filter (\<lambda>h. fst h \<noteq> field) (headers r)\<rparr>))"

definition removeHeader :: "string \<Rightarrow> response \<Rightarrow> response" where
  "removeHeader field r = r\<lparr>headers := filter (\<lambda>h. fst h \<noteq> field) (headers r)\<rparr>"

text \<open>
  \<^verbatim>\<open>req.fresh\<close>, as \<^verbatim>\<open>send\<close> reads it: the method is \<^verbatim>\<open>GET\<close> or \<^verbatim>\<open>HEAD\<close>,
  the status is 2xx or 304, and the validators of the request match.
\<close>

definition fresh :: "request \<Rightarrow> body \<Rightarrow> response \<Rightarrow> bool" where
  "fresh req chunk r =
     ((req_method req = ''GET'' \<or> req_method req = ''HEAD'') \<and>
      (200 \<le> statusCode r \<and> statusCode r < 300 \<or> statusCode r = 304) \<and>
      validators_match req chunk)"

text \<open>
  Express's own \<^verbatim>\<open>res.send\<close>, for the string bodies the handlers produce. It sets
  headers first, and so throws on a response that has been sent. A fresh request gets
  the status 304; a response with status 204 or 304 loses its \<^verbatim>\<open>Content-Type\<close> and
  its body; a \<^verbatim>\<open>HEAD\<close> request gets no body. Then the response is ended under the
  status code it has. The headers \<^verbatim>\<open>send\<close> computes from the body
  (\<^verbatim>\<open>Content-Length\<close>, \<^verbatim>\<open>ETag\<close>) and the content type it gives a response
  that has none are left out.
\<close>

definition express_send :: "request \<Rightarrow> body \<Rightarrow> response \<Rightarrow> error + response" where
  "express_send req chunk r =
     (if sent r \<noteq> None then Inl ERR_HTTP_HEADERS_SENT
      else
        let r1 = (if fresh req chunk r then r\<lparr>statusCode := 304\<rparr> else r);
            strip = (statusCode r1 = 204 \<or> statusCode r1 = 304);
            r2 = (if strip then removeHeader ''Content-Type'' r1 else r1);
            chunk1 = (if strip then Text '''' else chunk)
        in if req_method req = ''HEAD'' then Inr (r2\<lparr>sent := Some (Text '''')\<rparr>)
           else Inr (r2\<lparr>sent := Some chunk1\<rparr>))"

text \<open>
  \<^verbatim>\<open>res.end\<close> writes the chunk and ends the response; nothing reaches the client
  after that. \<^verbatim>\<open>res.json\<close> sets the content type if none is set and calls
  \<^verbatim>\<open>this.send\<close>, that is whatever function \<^verbatim>\<open>res.send\<close> holds at that time.
\<close>

definition res_end :: "body \<Rightarrow> response \<Rightarrow> response" where
  "res_end chunk r = (if sent r \<noteq> None then r else r\<lparr>sent := Some chunk\<rparr>)"

type_synonym send_fn = "body \<Rightarrow> response \<times> world \<Rightarrow> error + response \<times> world"

definition res_json :: "send_fn \<Rightarrow> json \<Rightarrow> response \<times> world \<Rightarrow> error + response \<times> world" where
  "res_json send obj rw =
     (case rw of (r, w) \<Rightarrow>
        (case res_get ''Content-Type'' r of
           Some _ \<Rightarrow> send (Json obj) (r, w)
         | None \<Rightarrow>
            (case res_set ''Content-Type'' ''application/json'' r of
               Inl e \<Rightarrow> Inl e
             | Inr r1 \<Rightarrow> send (Json obj) (r1, w))))"

text \<open>A response object that no middleware has touched: \<^verbatim>\<open>res.send\<close> is Express's.\<close>

definition plain_send :: "(body \<Rightarrow> response \<Rightarrow> error + response) \<Rightarrow> send_fn" where
  "plain_send originalSend b rw =
     (case rw of (r, w) \<Rightarrow>
        (case originalSend b r of Inl e \<Rightarrow> Inl e | Inr r1 \<Rightarrow> Inr (r1, w)))"

subsection \<open>The instrumentation middleware\<close>

text \<open>
  The function the middleware assigns to \<^verbatim>\<open>res.send\<close>. It closes over
  \<^verbatim>\<open>originalSend\<close>, over \<^verbatim>\<open>end\<close> (here the start time of the timer) and over
  \<^verbatim>\<open>req\<close>. An exception of \<^verbatim>\<open>originalSend\<close> leaves the function at its first
  line.
\<close>

definition patched_send ::
  "(body \<Rightarrow> response \<Rightarrow> error + response) \<Rightarrow> real \<Rightarrow> request \<Rightarrow> send_fn" where
  "patched_send originalSend start req b rw =
     (case rw of (r, w) \<Rightarrow>
        (case originalSend b r of
           Inl e \<Rightarrow> Inl e
         | Inr res \<Rightarrow>
            (let (responseTime, w1) =
                   end_timer start
                     \<lparr>label_method = req_method req, route = req_path req,
                      status_code = statusCode res\<rparr> w;
                 w2 = logger_info ''Request processed''
                        (req_method req) (req_path req) (statusCode res)
                        (js_times responseTime 1000) w1;
                 w3 = inc \<lparr>label_method = req_method req, route = req_path req,
                           status_code = statusCode res\<rparr> w2
             in Inr (res, w3))))"

text \<open>
  The middleware itself: it starts the timer in the world \<open>w0\<close> in which the request
  arrives, keeps the current \<^verbatim>\<open>res.send\<close> and installs the patched one, then calls
  \<^verbatim>\<open>next()\<close>. Its result is the \<^verbatim>\<open>res.send\<close> the handler will find.
\<close>

definition middleware ::
  "(body \<Rightarrow> response \<Rightarrow> error + response) \<Rightarrow> request \<Rightarrow> world \<Rightarrow> send_fn" where
  "middleware originalSend req w0 = patched_send originalSend (startTimer w0) req"

subsection \<open>Route handlers\<close>

text \<open>
  What a handler reads from its environment: the two draws of \<^verbatim>\<open>Math.random()\<close>,
  the text of \<^verbatim>\<open>new Date().toISOString()\<close>, and the text
  \<^verbatim>\<open>register.metrics()\<close> resolves to.
\<close>

record inputs =
  random_delay :: real
  random_value :: real
  iso_now :: string
  metrics_text :: string

datatype endpoint = ApiData | Health | Metrics

definition processingTime :: "inputs \<Rightarrow> jsnum" where
  "processingTime i = js_times (random_delay i) 500"

definition data_value :: "inputs \<Rightarrow> jsnum" where
  "data_value i = js_floor (js_times (random_value i) 100)"

text \<open>The callback \<^verbatim>\<open>/api/data\<close> gives to \<^verbatim>\<open>setTimeout\<close>.\<close>

definition api_data_callback :: "send_fn \<Rightarrow> inputs \<Rightarrow> response \<times> world \<Rightarrow> error + response \<times> world" where
  "api_data_callback send i rw =
     (let data = JObj [(''value'', JNum (data_value i)), (''timestamp'', JStr (iso_now i))]
      in res_json send data rw)"

definition health :: "send_fn \<Rightarrow> response \<times> world \<Rightarrow> error + response \<times> world" where
  "health send rw = res_json send (JObj [(''status'', JStr ''ok'')]) rw"

definition contentType :: string where
  "contentType = ''text/plain; version=0.0.4; charset=utf-8''"

definition metrics :: "inputs \<Rightarrow> response \<times> world \<Rightarrow> error + response \<times> world" where
  "metrics i rw =
     (case rw of (r, w) \<Rightarrow>
        (case res_set ''Content-Type'' contentType r of
           Inl e \<Rightarrow> Inl e
         | Inr r1 \<Rightarrow> Inr (res_end (Text (metrics_text i)) r1, w)))"

text \<open>
  A handler run to the end of its response, in the world \<open>w\<close> in which it finalises:
  for \<^verbatim>\<open>/api/data\<close> that is the world in which the timer fires,
  \<open>processingTime\<close> milliseconds or more after the handler was entered.
\<close>

fun handle :: "endpoint \<Rightarrow> send_fn \<Rightarrow> inputs \<Rightarrow> response \<times> world \<Rightarrow> error + response \<times> world" where
  "handle ApiData send i rw = api_data_callback send i rw"
| "handle Health send i rw = health send rw"
| "handle Metrics send i rw = metrics i rw"

text \<open>
  One request through the application: the middleware runs in \<open>w0\<close> on a new response
  object, whose \<^verbatim>\<open>send\<close> is Express's, and the handler finalises in \<open>w\<close>.
  The endpoint is the handler Express has routed the request to; the routing itself,
  and requests that match no route, are outside the model.
  \<open>serve_plain\<close> is the same application without the \<^verbatim>\<open>app.use\<close> call.
\<close>

definition serve ::
  "endpoint \<Rightarrow> request \<Rightarrow> inputs \<Rightarrow> world \<Rightarrow> world \<Rightarrow> error + response \<times> world" where
  "serve ep req i w0 w =
     handle ep (middleware (express_send req) req w0) i (new_response, w)"

definition serve_plain ::
  "endpoint \<Rightarrow> request \<Rightarrow> inputs \<Rightarrow> world \<Rightarrow> error + response \<times> world" where
  "serve_plain ep req i w = handle ep (plain_send (express_send req)) i (new_response, w)"

text \<open>
  Several calls of the patched \<^verbatim>\<open>send\<close> on one response, one after the other; each
  entry is the body of the call and the clock at the call. An exception ends the
  sequence, and the state is the one the exception found.
\<close>

fun sends ::
  "(body \<Rightarrow> response \<Rightarrow> error + response) \<Rightarrow> real \<Rightarrow> request \<Rightarrow> (body \<times> real) list \<Rightarrow>
   response \<times> world \<Rightarrow> error option \<times> response \<times> world" where
  "sends originalSend start req [] rw = (None, rw)"
| "sends originalSend start req ((b, t) # calls) (r, w) =
     (case patched_send originalSend start req b (r, w\<lparr>clock := t\<rparr>) of
        Inl e \<Rightarrow> (Some e, r, w\<lparr>clock := t\<rparr>)
      | Inr rw1 \<Rightarrow> sends originalSend start req calls rw1)"

subsection \<open>Reading the outcome of a call\<close>

text \<open>
  The effects a call has added to those of the world \<open>w\<close> it started in; a call that
  threw has added none. \<open>step_of\<close> names the kind of an effect.
\<close>

definition emitted :: "world \<Rightarrow> error + response \<times> world \<Rightarrow> effect list" where
  "emitted w out =
     (case out of
        Inl e \<Rightarrow> []
      | Inr rw \<Rightarrow> drop (length (effects w)) (effects (snd rw)))"

definition response_of :: "error + response \<times> world \<Rightarrow> error + response" where
  "response_of out = (case out of Inl e \<Rightarrow> Inl e | Inr rw \<Rightarrow> Inr (fst rw))"

datatype step = RecordDuration | EmitLog | IncrementCounter

fun step_of :: "effect \<Rightarrow> step" where
  "step_of (Observe l v) = RecordDuration"
| "step_of (Log r) = EmitLog"
| "step_of (Inc l) = IncrementCounter"

subsection \<open>Example inputs\<close>

definition idle :: world where
  "idle = \<lparr>clock = 0, effects = []\<rparr>"

text \<open>
  A plain \<^verbatim>\<open>GET /health\<close>, and the same request with \<^verbatim>\<open>If-None-Match: *\<close>.
\<close>

definition get_health :: request where
  "get_health = \<lparr>req_method = ''GET'', req_path = ''/health'',
                  validators_match = (\<lambda>b. False)\<rparr>"

definition get_health_if_none_match :: request where
  "get_health_if_none_match = \<lparr>req_method = ''GET'', req_path = ''/health'',
                  validators_match = (\<lambda>b. True)\<rparr>"


definition get_metrics :: request where
  "get_metrics = \<lparr>req_method = ''GET'', req_path = ''/metrics'',
                   validators_match = (\<lambda>b. False)\<rparr>"

text \<open>
  The draw for the value is the double nearest to 0.37; \<open>duration\<close> is the double
  nearest to 0.104938268, the seconds the timer reports for 104938268 nanoseconds.
\<close>

definition sample_inputs :: inputs where
  "sample_inputs = \<lparr>random_delay = 1/2, random_value = 3332663724254167 / 2 ^ 53,
     iso_now = ''2024-01-01T00:00:00.000Z'', metrics_text = ''# HELP''\<rparr>"

definition duration :: real where
  "duration = 1890399778646821 / 2 ^ 54"

text \<open>An original \<^verbatim>\<open>send\<close> that accepts any number of calls.\<close>

definition lenient_send :: "body \<Rightarrow> response \<Rightarrow> error + response" where
  "lenient_send b r = Inr (r\<lparr>sent := Some b\<rparr>)"

section \<open>Rounding to a double\<close>

lemma round_even_upper: "of_int (round_even y) \<le> y + 1/2"
  unfolding round_even_def Let_def by (auto; linarith)

lemma round_even_lower: "y - 1/2 \<le> of_int (round_even y)"
  unfolding round_even_def Let_def by (auto; linarith)


lemma ulp_pos: "0 < ulp x"
  by (simp add: ulp_def)

lemma exponent_binade:
  assumes "x \<noteq> 0" and "2 powr of_int e \<le> \<bar>x\<bar>" and "\<bar>x\<bar> < 2 powr (of_int e + 1)"
  shows "exponent x = max e (- 1022)"
proof -
  have "\<lfloor>log 2 \<bar>x\<bar>\<rfloor> = e"
    using assms by (subst floor_log_eq_powr_iff) auto
  then show ?thesis by (simp add: exponent_def)
qed


text \<open>The value of \<open>to_double\<close>, computed from the binade \<open>e\<close> of the argument.\<close>

lemma to_double_binade:
  assumes "x \<noteq> 0" and "2 powr of_int e \<le> \<bar>x\<bar>" and "\<bar>x\<bar> < 2 powr (of_int e + 1)"
  shows "to_double x =
     (let u = 2 powr (of_int (max e (- 1022)) - 52);
          y = u * of_int (round_even (x / u))
      in if 2 powr 1024 \<le> \<bar>y\<bar> then (if 0 < x then Infinity else NegInfinity) else Num y)"
proof -
  have "ulp x = 2 powr (of_int (max e (- 1022)) - 52)"
    using exponent_binade [OF assms] by (simp add: ulp_def)
  then show ?thesis
    using assms(1) by (simp add: to_double_def Let_def)
qed

text \<open>A finite result is within half a unit in the last place of the exact one.\<close>

lemma to_double_error:
  assumes "to_double x = Num y"
  shows "\<bar>y - x\<bar> \<le> ulp x / 2"
proof (cases "x = 0")
  case True
  with assms show ?thesis using ulp_pos [of x] by (simp add: to_double_def)
next
  case False
  define n where "n = round_even (x / ulp x)"
  from assms False have y: "y = ulp x * of_int n"
    by (simp add: to_double_def Let_def n_def split: if_splits)
  have "\<bar>of_int n - x / ulp x\<bar> \<le> 1/2"
    using round_even_upper [of "x / ulp x"] round_even_lower [of "x / ulp x"]
    unfolding n_def by linarith
  then have "ulp x * \<bar>of_int n - x / ulp x\<bar> \<le> ulp x * (1/2)"
    using ulp_pos [of x] by (intro mult_left_mono) simp_all
  moreover have "ulp x * \<bar>of_int n - x / ulp x\<bar> = \<bar>ulp x * of_int n - x\<bar>"
  proof -
    have "\<bar>ulp x * of_int n - x\<bar> = \<bar>ulp x * (of_int n - x / ulp x)\<bar>"
      using ulp_pos [of x] by (simp add: algebra_simps)
    also have "\<dots> = ulp x * \<bar>of_int n - x / ulp x\<bar>"
      using ulp_pos [of x] by (simp add: abs_mult)
    finally show ?thesis by simp
  qed
  ultimately show ?thesis using y by simp
qed

lemma ulp_le:
  assumes "x \<noteq> 0"
  shows "ulp x \<le> max \<bar>x\<bar> (2 powr (- 1022)) / 2 ^ 52"
proof -
  let ?k = "\<lfloor>log 2 \<bar>x\<bar>\<rfloor>"
  have pos: "0 < \<bar>x\<bar>" using assms by simp
  have k: "2 powr of_int ?k \<le> \<bar>x\<bar>"
    using floor_log_eq_powr_iff [of "\<bar>x\<bar>" 2 ?k] pos by simp
  have "2 powr of_int (exponent x) \<le> max \<bar>x\<bar> (2 powr (- 1022))"
  proof (cases "?k \<le> - 1022")
    case True
    then have "exponent x = - 1022" by (simp add: exponent_def)
    then show ?thesis by simp
  next
    case False
    then have "exponent x = ?k" by (simp add: exponent_def)
    with k show ?thesis by simp
  qed
  then have "2 powr of_int (exponent x) / 2 ^ 52 \<le> max \<bar>x\<bar> (2 powr (- 1022)) / 2 ^ 52"
    by (rule divide_right_mono) simp
  moreover have "ulp x = 2 powr of_int (exponent x) / 2 ^ 52"
    by (simp add: ulp_def powr_diff)
  ultimately show ?thesis by simp
qed

lemma to_double_close:
  assumes "to_double x = Num y"
  shows "\<bar>y - x\<bar> \<le> max \<bar>x\<bar> (2 powr (- 1022)) / 2 ^ 53"
proof (cases "x = 0")
  case True
  with assms show ?thesis by (simp add: to_double_def)
next
  case False
  have "\<bar>y - x\<bar> \<le> ulp x / 2" by (rule to_double_error [OF assms])
  also have "\<dots> \<le> (max \<bar>x\<bar> (2 powr (- 1022)) / 2 ^ 52) / 2"
    using ulp_le [OF False] by simp
  also have "\<dots> = max \<bar>x\<bar> (2 powr (- 1022)) / 2 ^ 53" by simp
  finally show ?thesis .
qed




subsection \<open>The example numbers\<close>



lemma js_times_duration: "js_times duration 1000 = Num (7384374135339145 / 2 ^ 46)"
  unfolding js_times_def duration_def
  by (subst to_double_binade [where e = 6])
     (simp_all add: round_even_def Let_def powr_neg_numeral)

section \<open>Basic facts\<close>

lemma observations_append: "observations (xs @ ys) = observations xs @ observations ys"
  by (induction xs rule: observations.induct) simp_all

lemma increments_append: "increments (xs @ ys) = increments xs @ increments ys"
  by (induction xs rule: increments.induct) simp_all

lemma log_records_append: "log_records (xs @ ys) = log_records xs @ log_records ys"
  by (induction xs rule: log_records.induct) simp_all

lemma effects_logger_info:
  "effects (logger_info msg m p sc ms w) =
     effects w @ [Log \<lparr>level = ''info'', message = msg, service = ''api-service'',
                log_method = m, log_path = p, log_statusCode = sc,
                responseTimeMs = ms\<rparr>]"
  by (simp add: logger_info_def)

subsection \<open>The patched \<open>send\<close>\<close>

lemma patched_send_throws:
  "originalSend b r = Inl e \<Longrightarrow> patched_send originalSend start req b (r, w) = Inl e"
  by (simp add: patched_send_def)

lemma patched_send_returns:
  assumes "originalSend b r = Inr res"
  shows "\<exists>w'. patched_send originalSend start req b (r, w) = Inr (res, w') \<and>
     effects w' = effects w @
       [Observe \<lparr>label_method = req_method req, route = req_path req,
                 status_code = statusCode res\<rparr> (clock w - start),
        Log \<lparr>level = ''info'', message = ''Request processed'', service = ''api-service'',
             log_method = req_method req, log_path = req_path req,
             log_statusCode = statusCode res,
             responseTimeMs = js_times (clock w - start) 1000\<rparr>,
        Inc \<lparr>label_method = req_method req, route = req_path req,
             status_code = statusCode res\<rparr>]"
  using assms
  by (simp add: patched_send_def end_timer_def inc_def effects_logger_info Let_def)

lemma patched_send_InrD:
  assumes "patched_send originalSend start req b (r, w) = Inr (res, w')"
  shows "originalSend b r = Inr res \<and>
     effects w' = effects w @
       [Observe \<lparr>label_method = req_method req, route = req_path req,
                 status_code = statusCode res\<rparr> (clock w - start),
        Log \<lparr>level = ''info'', message = ''Request processed'', service = ''api-service'',
             log_method = req_method req, log_path = req_path req,
             log_statusCode = statusCode res,
             responseTimeMs = js_times (clock w - start) 1000\<rparr>,
        Inc \<lparr>label_method = req_method req, route = req_path req,
             status_code = statusCode res\<rparr>]"
proof (cases "originalSend b r")
  case (Inl e)
  with assms show ?thesis by (simp add: patched_send_throws)
next
  case (Inr res0)
  from patched_send_returns [of originalSend b r res0 start req w] Inr assms show ?thesis
    by auto
qed

lemma response_of_patched_send:
  "response_of (patched_send originalSend start req b (r, w)) = originalSend b r"
  by (cases "originalSend b r")
     (simp_all add: response_of_def patched_send_def end_timer_def Let_def)

lemma response_of_plain_send:
  "response_of (plain_send originalSend b (r, w)) = originalSend b r"
  by (cases "originalSend b r") (simp_all add: response_of_def plain_send_def)

subsection \<open>Handlers\<close>

text \<open>
  The response a handler produces depends on the \<open>send\<close> it finds only through the
  response that \<open>send\<close> produces, and not on the world.
\<close>

lemma response_of_res_json:
  assumes "\<And>b r. response_of (send1 b (r, w1)) = response_of (send2 b (r, w2))"
  shows "response_of (res_json send1 obj (r, w1)) = response_of (res_json send2 obj (r, w2))"
  using assms
  by (simp add: res_json_def response_of_def split: option.split sum.split)

lemma response_of_metrics:
  "response_of (metrics i (r, w1)) = response_of (metrics i (r, w2))"
  by (simp add: metrics_def response_of_def split: sum.split)

lemma response_of_handle:
  assumes "\<And>b r. response_of (send1 b (r, w1)) = response_of (send2 b (r, w2))"
  shows "response_of (handle ep send1 i (r, w1)) = response_of (handle ep send2 i (r, w2))"
proof -
  have js: "response_of (res_json send1 obj (r, w1)) = response_of (res_json send2 obj (r, w2))"
    for obj by (rule response_of_res_json) (rule assms)
  show ?thesis
  proof (cases ep)
    case ApiData
    then show ?thesis by (simp add: api_data_callback_def js)
  next
    case Health
    then show ?thesis by (simp add: health_def js)
  next
    case Metrics
    then show ?thesis by (simp add: response_of_metrics)
  qed
qed

text \<open>The response as \<^verbatim>\<open>res.json\<close> hands it to \<^verbatim>\<open>send\<close>.\<close>

lemma res_json_new_response:
  "res_json send obj (new_response, w) =
     send (Json obj)
       (new_response\<lparr>headers := [(''Content-Type'', ''application/json; charset=utf-8'')]\<rparr>, w)"
  by (simp add: res_json_def res_get_def res_set_def new_response_def charset_here_def
      starts_with_def charsets_lookup_def is_space_def Let_def)

lemma serve_json:
  assumes "ep \<noteq> Metrics"
  shows "serve ep req i w0 w =
     patched_send (express_send req) (clock w0) req
       (Json (case ep of
                Health \<Rightarrow> JObj [(''status'', JStr ''ok'')]
              | _ \<Rightarrow> JObj [(''value'', JNum (data_value i)), (''timestamp'', JStr (iso_now i))]))
       (new_response\<lparr>headers := [(''Content-Type'', ''application/json; charset=utf-8'')]\<rparr>, w)"
  using assms
  by (cases ep)
     (simp_all add: serve_def middleware_def startTimer_def api_data_callback_def health_def
        res_json_new_response)

text \<open>Express's \<^verbatim>\<open>send\<close> on a response that has not been sent.\<close>

lemma express_send_open:
  assumes "sent r = None"
  shows "\<exists>res. express_send req b r = Inr res \<and>
     statusCode res = (if fresh req b r then 304 else statusCode r) \<and>
     sent res = Some (if req_method req = ''HEAD'' \<or> fresh req b r \<or> statusCode r = 204 \<or>
                         statusCode r = 304
                      then Text '''' else b)"
  using assms
  by (auto simp: express_send_def Let_def removeHeader_def)

lemma fresh_json_response:
  "fresh req b (new_response\<lparr>headers := hs\<rparr>) = fresh req b new_response"
  by (simp add: fresh_def new_response_def)

lemma serve_send_endpoint:
  assumes "ep \<noteq> Metrics"
  shows "\<exists>res w'. serve ep req i w0 w = Inr (res, w') \<and>
     effects w' = effects w @
       [Observe \<lparr>label_method = req_method req, route = req_path req,
                 status_code = statusCode res\<rparr> (clock w - clock w0),
        Log \<lparr>level = ''info'', message = ''Request processed'', service = ''api-service'',
             log_method = req_method req, log_path = req_path req,
             log_statusCode = statusCode res,
             responseTimeMs = js_times (clock w - clock w0) 1000\<rparr>,
        Inc \<lparr>label_method = req_method req, route = req_path req,
             status_code = statusCode res\<rparr>]"
proof -
  let ?r1 = "new_response\<lparr>headers := [(''Content-Type'', ''application/json; charset=utf-8'')]\<rparr>"
  let ?b = "Json (case ep of
                Health \<Rightarrow> JObj [(''status'', JStr ''ok'')]
              | _ \<Rightarrow> JObj [(''value'', JNum (data_value i)), (''timestamp'', JStr (iso_now i))])"
  have "sent ?r1 = None" by (simp add: new_response_def)
  then obtain res where res: "express_send req ?b ?r1 = Inr res"
    using express_send_open [of ?r1 req ?b] by blast
  from patched_send_returns [of "express_send req" ?b ?r1 res "clock w0" req w] res
  show ?thesis unfolding serve_json [OF assms] by blast
qed

text \<open>What the client of a \<^verbatim>\<open>res.json\<close> handler gets.\<close>

lemma serve_json_response:
  assumes "ep \<noteq> Metrics"
  shows "\<exists>res. response_of (serve ep req i w0 w) = Inr res \<and>
     statusCode res =
       (if fresh req (Json (case ep of
                Health \<Rightarrow> JObj [(''status'', JStr ''ok'')]
              | _ \<Rightarrow> JObj [(''value'', JNum (data_value i)), (''timestamp'', JStr (iso_now i))]))
             new_response then 304 else 200) \<and>
     sent res = Some
       (if req_method req = ''HEAD'' \<or>
           fresh req (Json (case ep of
                Health \<Rightarrow> JObj [(''status'', JStr ''ok'')]
              | _ \<Rightarrow> JObj [(''value'', JNum (data_value i)), (''timestamp'', JStr (iso_now i))]))
             new_response
        then Text ''''
        else Json (case ep of
                Health \<Rightarrow> JObj [(''status'', JStr ''ok'')]
              | _ \<Rightarrow> JObj [(''value'', JNum (data_value i)), (''timestamp'', JStr (iso_now i))]))"
proof -
  let ?r1 = "new_response\<lparr>headers := [(''Content-Type'', ''application/json; charset=utf-8'')]\<rparr>"
  let ?b = "Json (case ep of
                Health \<Rightarrow> JObj [(''status'', JStr ''ok'')]
              | _ \<Rightarrow> JObj [(''value'', JNum (data_value i)), (''timestamp'', JStr (iso_now i))])"
  have s: "sent ?r1 = None" and c: "statusCode ?r1 = 200" by (simp_all add: new_response_def)
  from express_send_open [OF s, of req ?b]
  obtain res where res: "express_send req ?b ?r1 = Inr res"
    and st: "statusCode res = (if fresh req ?b ?r1 then 304 else statusCode ?r1)"
    and bd: "sent res = Some (if req_method req = ''HEAD'' \<or> fresh req ?b ?r1 \<or>
                statusCode ?r1 = 204 \<or> statusCode ?r1 = 304 then Text '''' else ?b)"
    by blast
  have "response_of (serve ep req i w0 w) = Inr res"
    by (simp add: serve_json [OF assms] response_of_patched_send res)
  with st bd c show ?thesis
    by (simp add: fresh_json_response)
qed

lemma serve_Metrics:
  "serve Metrics req i w0 w =
     Inr (\<lparr>statusCode = 200, headers = [(''Content-Type'', contentType)],
           sent = Some (Text (metrics_text i))\<rparr>, w)"
  by (simp add: serve_def metrics_def res_set_def res_end_def new_response_def contentType_def
      charset_here_def starts_with_def is_space_def Let_def)

section \<open>The claims\<close>

subsection \<open>Metric declarations\<close>

text \<open>
  \<^bold>\<open>C10\<close>. The registry holds, after whatever defaults the library adds, the
  histogram \<^verbatim>\<open>http_request_duration_seconds\<close> with label names method, route,
  status_code and bucket bounds 0.1, 0.3, 0.5, 0.7, 1, 3, 5, 7, 10, and the counter
  \<^verbatim>\<open>http_requests_total\<close> with the same label names.
\<close>

theorem registered_metric_declarations:
  "register defaults = defaults @ [httpRequestDurationMicroseconds, httpRequestCounter] \<and>
   httpRequestDurationMicroseconds =
     Histogram ''http_request_duration_seconds'' (metric_help httpRequestDurationMicroseconds)
       [''method'', ''route'', ''status_code''] [0.1, 0.3, 0.5, 0.7, 1, 3, 5, 7, 10] \<and>
   httpRequestCounter =
     Counter ''http_requests_total'' (metric_help httpRequestCounter)
       [''method'', ''route'', ''status_code'']"
  by (simp add: register_def registerMetric_def httpRequestDurationMicroseconds_def
      httpRequestCounter_def)

subsection \<open>What one call of the patched \<open>send\<close> emits\<close>

text \<open>
  \<^bold>\<open>C2\<close>, as amended. When the original \<^verbatim>\<open>send\<close> returns, the patched one has
  added to the effects, by the time it returns, exactly: the observation of the elapsed
  time (the clock minus the start of the timer) in the histogram, then the log record,
  then the increment of the counter.
\<close>

theorem patched_send_effect_order:
  assumes "originalSend b r = Inr res"
  shows "\<exists>w'. patched_send originalSend start req b (r, w) = Inr (res, w') \<and>
     effects w' = effects w @
       [Observe \<lparr>label_method = req_method req, route = req_path req,
                 status_code = statusCode res\<rparr> (clock w - start),
        Log \<lparr>level = ''info'', message = ''Request processed'', service = ''api-service'',
             log_method = req_method req, log_path = req_path req,
             log_statusCode = statusCode res,
             responseTimeMs = js_times (clock w - start) 1000\<rparr>,
        Inc \<lparr>label_method = req_method req, route = req_path req,
             status_code = statusCode res\<rparr>] \<and>
     map step_of (emitted w (patched_send originalSend start req b (r, w))) =
       [RecordDuration, EmitLog, IncrementCounter]"
  using patched_send_returns [of originalSend b r res start req w] assms
  by (auto simp: emitted_def)

theorem patched_send_effect_order_witness:
  "express_send get_health (Text ''x'') new_response =
     Inr (new_response\<lparr>sent := Some (Text ''x'')\<rparr>) \<and>
   map step_of (emitted idle (patched_send (express_send get_health) 0 get_health
      (Text ''x'') (new_response, idle))) =
       [RecordDuration, EmitLog, IncrementCounter]"
proof -
  have h: "express_send get_health (Text ''x'') new_response =
      Inr (new_response\<lparr>sent := Some (Text ''x'')\<rparr>)"
    by (simp add: express_send_def fresh_def get_health_def new_response_def Let_def)
  from patched_send_effect_order [of "express_send get_health" "Text ''x''" new_response
      "new_response\<lparr>sent := Some (Text ''x'')\<rparr>" 0 get_health idle] h
  show ?thesis by blast
qed

text \<open>
  The order the claim gives (histogram, counter, log record) is not the order of the
  code: for a \<^verbatim>\<open>GET /health\<close> finalised a quarter of a second after it arrived, the
  log record is emitted before the counter is incremented.
\<close>

theorem counter_before_log_counterexample:
  "map step_of (emitted (idle\<lparr>clock := 1/4\<rparr>) (patched_send (express_send get_health) 0
      get_health (Json (JObj [(''status'', JStr ''ok'')]))
      (new_response, idle\<lparr>clock := 1/4\<rparr>))) \<noteq> [RecordDuration, IncrementCounter, EmitLog]"
  by (simp add: emitted_def patched_send_def express_send_def fresh_def get_health_def
      new_response_def end_timer_def effects_logger_info inc_def idle_def Let_def)

text \<open>
  \<^bold>\<open>C8\<close>, as amended. A call of the patched \<^verbatim>\<open>send\<close> that returns has made one
  observation and emitted one log record, and the \<^verbatim>\<open>responseTimeMs\<close> of the record
  is the double product of the seconds observed and 1000: when finite, it differs from
  1000 times the seconds by at most the fraction \<open>1 / 2 ^ 53\<close> of that product (of the
  smallest normal double, for a smaller product).
\<close>

theorem log_time_is_double_product:
  assumes "patched_send originalSend start req b (r, w) = Inr (res, w')"
  shows "\<exists>l seconds rec.
     observations (emitted w (patched_send originalSend start req b (r, w))) = [(l, seconds)] \<and>
     log_records (emitted w (patched_send originalSend start req b (r, w))) = [rec] \<and>
     responseTimeMs rec = js_times seconds 1000 \<and>
     (\<forall>ms. responseTimeMs rec = Num ms \<longrightarrow>
        \<bar>ms - 1000 * seconds\<bar> \<le> max \<bar>1000 * seconds\<bar> (2 powr (- 1022)) / 2 ^ 53)"
proof -
  let ?s = "clock w - start"
  have close: "\<bar>ms - 1000 * ?s\<bar> \<le> max \<bar>1000 * ?s\<bar> (2 powr (- 1022)) / 2 ^ 53"
    if "js_times ?s 1000 = Num ms" for ms
  proof -
    from that have "to_double (1000 * ?s) = Num ms"
      by (simp add: js_times_def mult.commute)
    then show ?thesis by (rule to_double_close)
  qed
  from patched_send_InrD [of originalSend start req b r w res w'] assms close
  show ?thesis by (simp add: emitted_def)
qed

theorem log_time_is_double_product_witness:
  "observations (emitted (idle\<lparr>clock := duration\<rparr>) (patched_send lenient_send 0 get_health
       (Text ''x'') (new_response, idle\<lparr>clock := duration\<rparr>))) =
     [(\<lparr>label_method = ''GET'', route = ''/health'', status_code = 200\<rparr>, duration)] \<and>
   map responseTimeMs (log_records (emitted (idle\<lparr>clock := duration\<rparr>)
       (patched_send lenient_send 0 get_health (Text ''x'')
          (new_response, idle\<lparr>clock := duration\<rparr>)))) =
     [Num (7384374135339145 / 2 ^ 46)] \<and>
   \<bar>7384374135339145 / 2 ^ 46 - 1000 * duration\<bar> \<le>
     max \<bar>1000 * duration\<bar> (2 powr (- 1022)) / 2 ^ 53"
proof -
  let ?out = "patched_send lenient_send 0 get_health (Text ''x'')
       (new_response, idle\<lparr>clock := duration\<rparr>)"
  let ?w = "idle\<lparr>clock := duration\<rparr>"
  obtain res w' where h: "?out = Inr (res, w')"
    by (simp add: patched_send_def lenient_send_def end_timer_def Let_def)
  from log_time_is_double_product [OF h]
  obtain l seconds rec where
    o: "observations (emitted ?w ?out) = [(l, seconds)]"
    and g: "log_records (emitted ?w ?out) = [rec]"
    and m: "responseTimeMs rec = js_times seconds 1000"
    and c: "\<forall>ms. responseTimeMs rec = Num ms \<longrightarrow>
        \<bar>ms - 1000 * seconds\<bar> \<le> max \<bar>1000 * seconds\<bar> (2 powr (- 1022)) / 2 ^ 53"
    by blast
  have o': "observations (emitted ?w ?out) =
     [(\<lparr>label_method = ''GET'', route = ''/health'', status_code = 200\<rparr>, duration)]"
    by (simp add: emitted_def patched_send_def lenient_send_def new_response_def end_timer_def
      effects_logger_info inc_def idle_def get_health_def Let_def)
  from o o' have s: "seconds = duration" by simp
  with m have ms: "responseTimeMs rec = Num (7384374135339145 / 2 ^ 46)"
    by (simp only: js_times_duration)
  with c s have "\<bar>7384374135339145 / 2 ^ 46 - 1000 * duration\<bar> \<le>
     max \<bar>1000 * duration\<bar> (2 powr (- 1022)) / 2 ^ 53"
    by blast
  with g ms o' show ?thesis by simp
qed

text \<open>
  The claim as it stands fails for a request that took 104938268 nanoseconds: the
  histogram gets the double nearest to 0.104938268 and the log record
  104.93826800000001, which is not 1000 times that double.
\<close>

theorem logged_time_rounded_counterexample:
  "observations (emitted (idle\<lparr>clock := duration\<rparr>)
       (patched_send (express_send get_health) 0 get_health
          (Json (JObj [(''status'', JStr ''ok'')])) (new_response, idle\<lparr>clock := duration\<rparr>))) =
     [(\<lparr>label_method = ''GET'', route = ''/health'', status_code = 200\<rparr>, duration)] \<and>
   map responseTimeMs (log_records (emitted (idle\<lparr>clock := duration\<rparr>)
       (patched_send (express_send get_health) 0 get_health
          (Json (JObj [(''status'', JStr ''ok'')])) (new_response, idle\<lparr>clock := duration\<rparr>)))) \<noteq>
     [Num (1000 * duration)]"
proof -
  have e: "emitted (idle\<lparr>clock := duration\<rparr>)
       (patched_send (express_send get_health) 0 get_health
          (Json (JObj [(''status'', JStr ''ok'')])) (new_response, idle\<lparr>clock := duration\<rparr>)) =
     [Observe \<lparr>label_method = ''GET'', route = ''/health'', status_code = 200\<rparr> duration,
      Log \<lparr>level = ''info'', message = ''Request processed'', service = ''api-service'',
           log_method = ''GET'', log_path = ''/health'', log_statusCode = 200,
           responseTimeMs = js_times duration 1000\<rparr>,
      Inc \<lparr>label_method = ''GET'', route = ''/health'', status_code = 200\<rparr>]"
    by (simp add: emitted_def patched_send_def express_send_def fresh_def get_health_def
      new_response_def end_timer_def effects_logger_info inc_def idle_def Let_def)
  have "(7384374135339145 / 2 ^ 46 :: real) \<noteq> 1000 * duration"
    by (simp add: duration_def)
  then show ?thesis
    by (simp add: e js_times_duration)
qed

subsection \<open>The response the client sees\<close>

text \<open>
  \<^bold>\<open>C3\<close>. The middleware alters neither the status code nor the body: the patched
  \<^verbatim>\<open>send\<close> leaves the response exactly as the original \<^verbatim>\<open>send\<close> on the same
  body leaves it (or throws what it throws), and every handler produces the same
  response with the middleware installed as without it.
\<close>

theorem middleware_preserves_response:
  "response_of (patched_send originalSend start req b (r, w)) = originalSend b r \<and>
   response_of (handle ep (middleware originalSend req w0) i (r, w)) =
     response_of (handle ep (plain_send originalSend) i (r, w)) \<and>
   response_of (serve ep req i w0 w) = response_of (serve_plain ep req i w)"
proof -
  have same: "response_of (middleware originalSend' req w0 b' (r', w)) =
      response_of (plain_send originalSend' b' (r', w))" for originalSend' b' r'
    by (simp add: middleware_def response_of_patched_send response_of_plain_send)
  have h: "response_of (handle ep (middleware originalSend' req w0) i (r', w)) =
     response_of (handle ep (plain_send originalSend') i (r', w))" for originalSend' r'
    by (rule response_of_handle) (rule same)
  show ?thesis
    by (simp add: response_of_patched_send h serve_def serve_plain_def)
qed

text \<open>
  \<^bold>\<open>C6\<close>, as amended. A \<^verbatim>\<open>GET /health\<close> that is not fresh (\<^verbatim>\<open>req.fresh\<close>: a
  conditional request whose validators match) is answered with status 200 and the body
  \<^verbatim>\<open>{status: "ok"}\<close>, whatever the world (the registry, the logs, the clock) holds
  from earlier requests. A fresh one is answered with status 304 and an empty body.
\<close>

theorem health_response_unless_fresh:
  "(req_method req = ''GET'' \<longrightarrow>
    \<not> fresh req (Json (JObj [(''status'', JStr ''ok'')])) new_response \<longrightarrow>
      (\<exists>res. response_of (serve Health req i w0 w) = Inr res \<and> statusCode res = 200 \<and>
             sent res = Some (Json (JObj [(''status'', JStr ''ok'')])))) \<and>
   (fresh req (Json (JObj [(''status'', JStr ''ok'')])) new_response \<longrightarrow>
      (\<exists>res. response_of (serve Health req i w0 w) = Inr res \<and> statusCode res = 304 \<and>
             sent res = Some (Text '''')))"
proof -
  have h: "Health \<noteq> Metrics" by simp
  from serve_json_response [OF h, of req i w0 w]
  obtain res where res: "response_of (serve Health req i w0 w) = Inr res"
    and st: "statusCode res =
       (if fresh req (Json (JObj [(''status'', JStr ''ok'')])) new_response then 304 else 200)"
    and bd: "sent res = Some
       (if req_method req = ''HEAD'' \<or>
           fresh req (Json (JObj [(''status'', JStr ''ok'')])) new_response
        then Text '''' else Json (JObj [(''status'', JStr ''ok'')]))"
    by auto
  show ?thesis
  proof (intro conjI impI)
    assume "req_method req = ''GET''"
      and "\<not> fresh req (Json (JObj [(''status'', JStr ''ok'')])) new_response"
    with res st bd
    show "\<exists>res. response_of (serve Health req i w0 w) = Inr res \<and> statusCode res = 200 \<and>
             sent res = Some (Json (JObj [(''status'', JStr ''ok'')]))"
      by simp
  next
    assume "fresh req (Json (JObj [(''status'', JStr ''ok'')])) new_response"
    with res st bd
    show "\<exists>res. response_of (serve Health req i w0 w) = Inr res \<and> statusCode res = 304 \<and>
             sent res = Some (Text '''')"
      by simp
  qed
qed

theorem health_response_unless_fresh_witness:
  "req_method get_health = ''GET'' \<and>
   \<not> fresh get_health (Json (JObj [(''status'', JStr ''ok'')])) new_response \<and>
   (\<exists>res. response_of (serve Health get_health sample_inputs idle idle) = Inr res \<and>
          statusCode res = 200 \<and> sent res = Some (Json (JObj [(''status'', JStr ''ok'')]))) \<and>
   fresh get_health_if_none_match (Json (JObj [(''status'', JStr ''ok'')])) new_response \<and>
   (\<exists>res. response_of (serve Health get_health_if_none_match sample_inputs idle idle) = Inr res \<and>
          statusCode res = 304 \<and> sent res = Some (Text ''''))"
proof -
  have a: "req_method get_health = ''GET''" by (simp add: get_health_def)
  have b: "\<not> fresh get_health (Json (JObj [(''status'', JStr ''ok'')])) new_response"
    by (simp add: fresh_def get_health_def)
  have c: "fresh get_health_if_none_match (Json (JObj [(''status'', JStr ''ok'')])) new_response"
    by (simp add: fresh_def get_health_if_none_match_def new_response_def)
  from health_response_unless_fresh [of get_health sample_inputs idle idle]
    health_response_unless_fresh [of get_health_if_none_match sample_inputs idle idle] a b c
  show ?thesis by blast
qed

text \<open>
  The claim as it stands fails for \<^verbatim>\<open>GET /health\<close> with \<^verbatim>\<open>If-None-Match: *\<close>:
  the answer is 304 with no content type and an empty body.
\<close>

theorem health_conditional_request_counterexample:
  "response_of (serve Health get_health_if_none_match sample_inputs idle idle) =
     Inr \<lparr>statusCode = 304, headers = [], sent = Some (Text '''')\<rparr>"
  by (simp add: serve_json response_of_patched_send express_send_def fresh_def
      get_health_if_none_match_def new_response_def removeHeader_def Let_def)



subsection \<open>Which requests are sampled\<close>

text \<open>
  \<^bold>\<open>C4\<close>. A request to \<^verbatim>\<open>/metrics\<close> is answered through \<^verbatim>\<open>res.end\<close> and
  leaves the world as it was: no observation, no increment, no log record.
\<close>

theorem metrics_request_leaves_registry_and_logs:
  "(\<exists>res. serve Metrics req i w0 w = Inr (res, w)) \<and>
   emitted w (serve Metrics req i w0 w) = []"
  by (simp add: serve_Metrics emitted_def)

text \<open>
  \<^bold>\<open>C1\<close>, as amended. A request to \<^verbatim>\<open>/api/data\<close> or \<^verbatim>\<open>/health\<close>, whose
  handlers finalise through \<^verbatim>\<open>send\<close>, completes and adds exactly one observation,
  one log record and one increment; the three carry the method and the path of the
  request and the status code of the response.
\<close>

theorem sent_response_emits_one_sample_set:
  assumes "ep \<noteq> Metrics"
  shows "\<exists>res w' seconds.
    serve ep req i w0 w = Inr (res, w') \<and>
    effects w' = effects w @
      [Observe \<lparr>label_method = req_method req, route = req_path req,
                status_code = statusCode res\<rparr> seconds,
       Log \<lparr>level = ''info'', message = ''Request processed'', service = ''api-service'',
            log_method = req_method req, log_path = req_path req,
            log_statusCode = statusCode res, responseTimeMs = js_times seconds 1000\<rparr>,
       Inc \<lparr>label_method = req_method req, route = req_path req,
            status_code = statusCode res\<rparr>] \<and>
    length (observations (effects w')) = Suc (length (observations (effects w))) \<and>
    length (increments (effects w')) = Suc (length (increments (effects w))) \<and>
    length (log_records (effects w')) = Suc (length (log_records (effects w)))"
proof -
  from serve_send_endpoint [OF assms, of req i w0 w]
  obtain res w' where s: "serve ep req i w0 w = Inr (res, w')"
    and e: "effects w' = effects w @
       [Observe \<lparr>label_method = req_method req, route = req_path req,
                 status_code = statusCode res\<rparr> (clock w - clock w0),
        Log \<lparr>level = ''info'', message = ''Request processed'', service = ''api-service'',
             log_method = req_method req, log_path = req_path req,
             log_statusCode = statusCode res,
             responseTimeMs = js_times (clock w - clock w0) 1000\<rparr>,
        Inc \<lparr>label_method = req_method req, route = req_path req,
             status_code = statusCode res\<rparr>]"
    by blast
  have "length (observations (effects w')) = Suc (length (observations (effects w)))"
    by (simp add: e observations_append)
  moreover have "length (increments (effects w')) = Suc (length (increments (effects w)))"
    by (simp add: e increments_append)
  moreover have "length (log_records (effects w')) = Suc (length (log_records (effects w)))"
    by (simp add: e log_records_append)
  ultimately show ?thesis using s e by blast
qed

theorem sent_response_emits_one_sample_set_witness:
  "Health \<noteq> Metrics \<and>
   length (observations (emitted idle (serve Health get_health sample_inputs idle idle))) = 1 \<and>
   length (increments (emitted idle (serve Health get_health sample_inputs idle idle))) = 1 \<and>
   length (log_records (emitted idle (serve Health get_health sample_inputs idle idle))) = 1"
proof -
  have h: "Health \<noteq> Metrics" by simp
  from sent_response_emits_one_sample_set [OF h, of get_health sample_inputs idle idle]
  show ?thesis by (auto simp: emitted_def idle_def)
qed

text \<open>
  The claim as it stands fails at \<^verbatim>\<open>GET /metrics\<close>: the request completes with
  status 200 and no log record, observation or increment is produced for it.
\<close>

theorem metrics_request_unsampled_counterexample:
  "response_of (serve Metrics get_metrics sample_inputs idle idle) =
     Inr \<lparr>statusCode = 200, headers = [(''Content-Type'', contentType)],
          sent = Some (Text ''# HELP'')\<rparr> \<and>
   length (log_records (emitted idle (serve Metrics get_metrics sample_inputs idle idle))) \<noteq> 1 \<and>
   length (observations (emitted idle (serve Metrics get_metrics sample_inputs idle idle))) \<noteq> 1 \<and>
   length (increments (emitted idle (serve Metrics get_metrics sample_inputs idle idle))) \<noteq> 1"
  by (simp add: serve_Metrics emitted_def response_of_def sample_inputs_def)

subsection \<open>Several calls of \<open>send\<close> on one response\<close>

text \<open>
  \<^bold>\<open>C9\<close>, as amended. When \<^verbatim>\<open>send\<close> is called N times on one response and every
  call returns, there are N more observations, N more increments and N more log records:
  nothing is deduplicated. A call in which the original \<^verbatim>\<open>send\<close> throws throws the
  same error and emits nothing.
\<close>

theorem sends_emit_per_returning_call:
  "(sends originalSend start req calls (r, w) = (None, r', w') \<longrightarrow>
     length (observations (effects w')) = length (observations (effects w)) + length calls \<and>
     length (increments (effects w')) = length (increments (effects w)) + length calls \<and>
     length (log_records (effects w')) = length (log_records (effects w)) + length calls) \<and>
   (throwing b r0 = Inl e \<longrightarrow> patched_send throwing start0 req0 b (r0, w0) = Inl e)"
proof (intro conjI impI)
  assume "throwing b r0 = Inl e"
  then show "patched_send throwing start0 req0 b (r0, w0) = Inl e"
    by (rule patched_send_throws)
next
  assume "sends originalSend start req calls (r, w) = (None, r', w')"
  then have "length (observations (effects w')) = length (observations (effects w)) + length calls \<and>
     length (increments (effects w')) = length (increments (effects w)) + length calls \<and>
     length (log_records (effects w')) = length (log_records (effects w)) + length calls"
  proof (induction calls arbitrary: r w)
    case Nil
    then show ?case by simp
  next
    case (Cons c calls)
    obtain b t where c: "c = (b, t)" by (cases c)
    show ?case
    proof (cases "patched_send originalSend start req b (r, w\<lparr>clock := t\<rparr>)")
      case (Inl e)
      with Cons.prems c show ?thesis by simp
    next
      case (Inr rw1)
      obtain r1 w1 where rw1: "rw1 = (r1, w1)" by (cases rw1)
      from Inr rw1
      have p: "patched_send originalSend start req b (r, w\<lparr>clock := t\<rparr>) = Inr (r1, w1)"
        by simp
      from Cons.prems c p
      have rest: "sends originalSend start req calls (r1, w1) = (None, r', w')"
        by simp
      note ih = Cons.IH [OF rest]
      from patched_send_InrD [of originalSend start req b r "w\<lparr>clock := t\<rparr>" r1 w1] p
      have e: "effects w1 = effects w @
         [Observe \<lparr>label_method = req_method req, route = req_path req,
                   status_code = statusCode r1\<rparr> (t - start),
          Log \<lparr>level = ''info'', message = ''Request processed'', service = ''api-service'',
               log_method = req_method req, log_path = req_path req,
               log_statusCode = statusCode r1, responseTimeMs = js_times (t - start) 1000\<rparr>,
          Inc \<lparr>label_method = req_method req, route = req_path req,
               status_code = statusCode r1\<rparr>]"
        by simp
      have "length (observations (effects w1)) = Suc (length (observations (effects w)))"
        by (simp add: e observations_append)
      moreover have "length (increments (effects w1)) = Suc (length (increments (effects w)))"
        by (simp add: e increments_append)
      moreover have "length (log_records (effects w1)) = Suc (length (log_records (effects w)))"
        by (simp add: e log_records_append)
      ultimately show ?thesis using ih c by simp
    qed
  qed
  then show "length (observations (effects w')) = length (observations (effects w)) + length calls"
    and "length (increments (effects w')) = length (increments (effects w)) + length calls"
    and "length (log_records (effects w')) = length (log_records (effects w)) + length calls"
    by simp_all
qed

theorem sends_emit_per_returning_call_witness:
  "fst (sends lenient_send 0 get_health
     [(Text ''x'', 1), (Text ''y'', 2)] (new_response, idle)) = None \<and>
   length (observations (effects (snd (snd (sends lenient_send 0 get_health
     [(Text ''x'', 1), (Text ''y'', 2)] (new_response, idle)))))) = 2 \<and>
   length (increments (effects (snd (snd (sends lenient_send 0 get_health
     [(Text ''x'', 1), (Text ''y'', 2)] (new_response, idle)))))) = 2 \<and>
   length (log_records (effects (snd (snd (sends lenient_send 0 get_health
     [(Text ''x'', 1), (Text ''y'', 2)] (new_response, idle)))))) = 2 \<and>
   express_send get_health (Text ''y'') (new_response\<lparr>sent := Some (Text ''x'')\<rparr>) =
     Inl ERR_HTTP_HEADERS_SENT \<and>
   patched_send (express_send get_health) 0 get_health (Text ''y'')
     (new_response\<lparr>sent := Some (Text ''x'')\<rparr>, idle) = Inl ERR_HTTP_HEADERS_SENT"
proof -
  let ?S = "sends lenient_send 0 get_health [(Text ''x'', 1), (Text ''y'', 2)] (new_response, idle)"
  let ?r0 = "new_response\<lparr>sent := Some (Text ''x'')\<rparr>"
  have n: "fst ?S = None"
    by (simp add: patched_send_def lenient_send_def end_timer_def Let_def)
  have s: "?S = (None, fst (snd ?S), snd (snd ?S))"
    using n by (metis prod.collapse)
  have t: "express_send get_health (Text ''y'') ?r0 = Inl ERR_HTTP_HEADERS_SENT"
    by (simp add: express_send_def)
  have empty: "effects idle = []" by (simp add: idle_def)
  from sends_emit_per_returning_call
    [of lenient_send 0 get_health "[(Text ''x'', 1), (Text ''y'', 2)]" new_response idle
      "fst (snd ?S)" "snd (snd ?S)" "express_send get_health" "Text ''y''" ?r0
      ERR_HTTP_HEADERS_SENT 0 get_health idle] s t n empty
  show ?thesis by simp
qed

text \<open>
  The claim as it stands fails on Express's own \<^verbatim>\<open>send\<close>: of two calls on one
  response the second throws, and one sample set has been emitted, not two.
\<close>

theorem second_send_throws_counterexample:
  "fst (sends (express_send get_health) 0 get_health
     [(Text ''x'', 1), (Text ''x'', 2)] (new_response, idle)) = Some ERR_HTTP_HEADERS_SENT \<and>
   length (observations (effects (snd (snd (sends (express_send get_health) 0 get_health
     [(Text ''x'', 1), (Text ''x'', 2)] (new_response, idle)))))) \<noteq> 2"
  by (simp add: patched_send_def express_send_def fresh_def get_health_def new_response_def
      end_timer_def effects_logger_info inc_def idle_def Let_def)

end
